theory Spec2Isabelle
  imports Complex_Main
begin

section \<open>The stability service: data\<close>

text \<open>
  The service is one FastAPI route, \<^verbatim>\<open>POST /calculate-stability\<close>, in
  \<^verbatim>\<open>stability-service/main.py\<close>:
  \<^verbatim>\<open>
  @app.post("/calculate-stability")
  async def calculate_stability(data: dict):
      # (a comment, in Spanish: the calculations will go here)
      return {
          "displacement": 8000,
          "estimatedGM": 1.5,
          "estimatedTrim": 0.2
      }
  \<close>
  The handler receives a Python dict decoded from a JSON object and returns a dict.
\<close>

text \<open>
  A decoded JSON value. Python keeps \<^verbatim>\<open>int\<close> and \<^verbatim>\<open>float\<close> apart, so do the
  constructors. A float is carried as the real number that its decimal text denotes; the
  handler does no arithmetic, so no rounding ever happens to it.
\<close>

datatype json =
    JNull
  | JBool bool
  | JInt int
  | JFloat real
  | JStr string
  | JArr "json list"
  | JObj "(string \<times> json) list"

text \<open>A Python dict with string keys: the request payload and the returned object.\<close>

type_synonym pydict = "string \<rightharpoonup> json"

text \<open>
  The ways a call can end other than by returning. The source raises nothing itself; the
  only failure the specification names is a validation error carrying a description.
\<close>

datatype error = ValidationError string

section \<open>The handler\<close>

text \<open>
  \<^verbatim>\<open>calculate_stability\<close>. The second argument is the state of the process around the
  call (the module globals, among them \<^verbatim>\<open>app\<close>); the body neither reads nor assigns any
  of it, so it is handed back as it came. The body has a single \<^verbatim>\<open>return\<close> and no
  \<^verbatim>\<open>raise\<close>, so the outcome is always \<open>Inr\<close>. The parameter \<^verbatim>\<open>data\<close> is not
  mentioned in the body.
\<close>

definition calculate_stability :: "pydict \<Rightarrow> 's \<Rightarrow> (error + pydict) \<times> 's" where
  "calculate_stability data s =
     (Inr (Map.empty(''displacement'' \<mapsto> JInt 8000,
                     ''estimatedGM'' \<mapsto> JFloat 1.5,
                     ''estimatedTrim'' \<mapsto> JFloat 0.2)), s)"

section \<open>Reading payloads and outcomes\<close>

text \<open>The numeric value of a JSON number; nothing for any other JSON value.\<close>

fun num_of :: "json \<Rightarrow> real option" where
  "num_of (JInt i) = Some (real_of_int i)"
| "num_of (JFloat r) = Some r"
| "num_of JNull = None"
| "num_of (JBool b) = None"
| "num_of (JStr t) = None"
| "num_of (JArr vs) = None"
| "num_of (JObj kvs) = None"

text \<open>The numeric value stored under a key of a dict, if the key is there and numeric.\<close>

definition num_at :: "pydict \<Rightarrow> string \<Rightarrow> real option" where
  "num_at d k = (case d k of None \<Rightarrow> None | Some v \<Rightarrow> num_of v)"

text \<open>An outcome is a success when the handler returned an object.\<close>

fun is_success :: "error + pydict \<Rightarrow> bool" where
  "is_success (Inr r) = True"
| "is_success (Inl e) = False"

fun is_validation_failure :: "error + pydict \<Rightarrow> bool" where
  "is_validation_failure (Inl (ValidationError msg)) = True"
| "is_validation_failure (Inr r) = False"

text \<open>A field of the returned object; nothing when the call failed.\<close>

fun result_field :: "error + pydict \<Rightarrow> string \<Rightarrow> json option" where
  "result_field (Inr r) k = r k"
| "result_field (Inl e) k = None"

fun result_num :: "error + pydict \<Rightarrow> string \<Rightarrow> real option" where
  "result_num (Inr r) k = num_at r k"
| "result_num (Inl e) k = None"

section \<open>What the specification calls a valid input\<close>

text \<open>
  The source has no validation and no formulas. The predicates of this section are the
  specification's description of a \<^verbatim>\<open>StabilityInput\<close> (its section 3) and of the
  quantities it names; they have no counterpart in the source and serve only to state
  which payloads the specification's sentences are about.
\<close>

definition spec_numeric :: "json option \<Rightarrow> bool" where
  "spec_numeric v = (case v of None \<Rightarrow> False | Some j \<Rightarrow> num_of j \<noteq> None)"

definition spec_positive :: "json option \<Rightarrow> bool" where
  "spec_positive v =
     (case v of None \<Rightarrow> False
      | Some j \<Rightarrow> (case num_of j of None \<Rightarrow> False | Some x \<Rightarrow> 0 < x))"

definition spec_non_negative :: "json option \<Rightarrow> bool" where
  "spec_non_negative v =
     (case v of None \<Rightarrow> False
      | Some j \<Rightarrow> (case num_of j of None \<Rightarrow> False | Some x \<Rightarrow> 0 \<le> x))"

text \<open>One entry of \<^verbatim>\<open>cargo_distribution\<close>: a weight and a longitudinal position.\<close>

fun spec_cargo_item :: "json \<Rightarrow> bool" where
  "spec_cargo_item (JObj kvs) =
     (spec_non_negative (map_of kvs ''weight'')
      \<and> spec_numeric (map_of kvs ''longitudinal_position''))"
| "spec_cargo_item JNull = False"
| "spec_cargo_item (JBool b) = False"
| "spec_cargo_item (JInt i) = False"
| "spec_cargo_item (JFloat r) = False"
| "spec_cargo_item (JStr t) = False"
| "spec_cargo_item (JArr vs) = False"

fun spec_cargo_items :: "json list \<Rightarrow> bool" where
  "spec_cargo_items [] = True"
| "spec_cargo_items (v # vs) = (spec_cargo_item v \<and> spec_cargo_items vs)"

text \<open>The optional fields: absent, or present and well formed.\<close>

definition spec_optional_beam :: "json option \<Rightarrow> bool" where
  "spec_optional_beam v = (case v of None \<Rightarrow> True | Some j \<Rightarrow> spec_positive (Some j))"

definition spec_optional_cargo :: "json option \<Rightarrow> bool" where
  "spec_optional_cargo v =
     (case v of None \<Rightarrow> True
      | Some j \<Rightarrow> (case j of JArr vs \<Rightarrow> spec_cargo_items vs | _ \<Rightarrow> False))"

text \<open>
  A valid \<^verbatim>\<open>StabilityInput\<close> in its direct representation: a positive
  \<^verbatim>\<open>displacement_tonnes\<close>, the two heights as numbers, and the optional fields well
  formed when they are there.
\<close>

definition spec_valid_input :: "pydict \<Rightarrow> bool" where
  "spec_valid_input d =
     (spec_positive (d ''displacement_tonnes'')
      \<and> spec_numeric (d ''center_of_gravity_height'')
      \<and> spec_numeric (d ''center_of_buoyancy_height'')
      \<and> spec_optional_beam (d ''beam'')
      \<and> spec_optional_cargo (d ''cargo_distribution''))"

text \<open>The sum of the supplied cargo weights; nothing when no distribution is supplied.\<close>

fun spec_item_weight :: "json \<Rightarrow> real" where
  "spec_item_weight (JObj kvs) =
     (case map_of kvs ''weight'' of None \<Rightarrow> 0
      | Some j \<Rightarrow> (case num_of j of None \<Rightarrow> 0 | Some x \<Rightarrow> x))"
| "spec_item_weight JNull = 0"
| "spec_item_weight (JBool b) = 0"
| "spec_item_weight (JInt i) = 0"
| "spec_item_weight (JFloat r) = 0"
| "spec_item_weight (JStr t) = 0"
| "spec_item_weight (JArr vs) = 0"

definition spec_cargo_weight :: "pydict \<Rightarrow> real option" where
  "spec_cargo_weight d =
     (case d ''cargo_distribution'' of None \<Rightarrow> None
      | Some j \<Rightarrow> (case j of JArr vs \<Rightarrow> Some (sum_list (map spec_item_weight vs))
                   | _ \<Rightarrow> None))"

text \<open>
  The metacentric radius of the specification's section 4.1, \<open>beam\<^sup>2 * k / (12 * displacement)\<close>
  for a calibration constant \<open>k\<close>; with no beam supplied there is nothing to derive it
  from and the term is zero.
\<close>

definition spec_BM :: "real \<Rightarrow> pydict \<Rightarrow> real" where
  "spec_BM k d =
     (case num_at d ''beam'' of None \<Rightarrow> 0
      | Some b \<Rightarrow> (case num_at d ''displacement_tonnes'' of None \<Rightarrow> 0
                   | Some w \<Rightarrow> (b * b * k) / (12 * w)))"

section \<open>Payloads used as concrete inputs\<close>

text \<open>
  The example scenario of the specification's section 8:
  \<^verbatim>\<open>{displacement_tonnes: 8000, center_of_gravity_height: 6.0,
   center_of_buoyancy_height: 7.5, beam: 20}\<close>.
\<close>

definition spec_example_input :: pydict where
  "spec_example_input =
     Map.empty(''displacement_tonnes'' \<mapsto> JInt 8000,
               ''center_of_gravity_height'' \<mapsto> JFloat 6.0,
               ''center_of_buoyancy_height'' \<mapsto> JFloat 7.5,
               ''beam'' \<mapsto> JInt 20)"

text \<open>Both heights equal and no beam.\<close>

definition equal_heights_input :: pydict where
  "equal_heights_input =
     Map.empty(''displacement_tonnes'' \<mapsto> JInt 8000,
               ''center_of_gravity_height'' \<mapsto> JFloat 6.0,
               ''center_of_buoyancy_height'' \<mapsto> JFloat 6.0)"

text \<open>A displacement of 5000 tonnes and two cargo items weighing 3000 tonnes together.\<close>

definition loaded_input :: pydict where
  "loaded_input =
     Map.empty(''displacement_tonnes'' \<mapsto> JInt 5000,
               ''center_of_gravity_height'' \<mapsto> JFloat 6.0,
               ''center_of_buoyancy_height'' \<mapsto> JFloat 7.5,
               ''cargo_distribution'' \<mapsto>
                  JArr [JObj [(''weight'', JInt 1000), (''longitudinal_position'', JInt 10)],
                        JObj [(''weight'', JInt 2000), (''longitudinal_position'', JInt (- 5))]])"

text \<open>No displacement and no cargo weights to derive one from.\<close>

definition no_displacement_input :: pydict where
  "no_displacement_input =
     Map.empty(''center_of_gravity_height'' \<mapsto> JFloat 6.0,
               ''center_of_buoyancy_height'' \<mapsto> JFloat 7.5,
               ''beam'' \<mapsto> JInt 20)"

text \<open>A negative displacement.\<close>

definition negative_displacement_input :: pydict where
  "negative_displacement_input =
     Map.empty(''displacement_tonnes'' \<mapsto> JInt (- 5),
               ''center_of_gravity_height'' \<mapsto> JFloat 6.0,
               ''center_of_buoyancy_height'' \<mapsto> JFloat 7.5)"

text \<open>A displacement that is not a number.\<close>

definition non_numeric_input :: pydict where
  "non_numeric_input =
     Map.empty(''displacement_tonnes'' \<mapsto> JStr ''heavy'',
               ''center_of_gravity_height'' \<mapsto> JFloat 6.0,
               ''center_of_buoyancy_height'' \<mapsto> JFloat 7.5)"

section \<open>The handler returns constants\<close>

lemma calculate_stability_outcome:
  "fst (calculate_stability data s) =
     Inr (Map.empty(''displacement'' \<mapsto> JInt 8000,
                    ''estimatedGM'' \<mapsto> JFloat 1.5,
                    ''estimatedTrim'' \<mapsto> JFloat 0.2))"
  by (simp add: calculate_stability_def)

lemma result_num_displacement:
  "result_num (fst (calculate_stability data s)) ''displacement'' = Some 8000"
  by (simp add: calculate_stability_outcome num_at_def)

lemma result_num_estimatedGM:
  "result_num (fst (calculate_stability data s)) ''estimatedGM'' = Some (3 / 2)"
  by (simp add: calculate_stability_outcome num_at_def)

lemma result_num_estimatedTrim:
  "result_num (fst (calculate_stability data s)) ''estimatedTrim'' = Some (1 / 5)"
  by (simp add: calculate_stability_outcome num_at_def)

lemma calculate_stability_is_success:
  "is_success (fst (calculate_stability data s))"
  by (simp add: calculate_stability_outcome)

lemma calculate_stability_not_failure:
  "\<not> is_validation_failure (fst (calculate_stability data s))"
  by (simp add: calculate_stability_outcome)

text \<open>
  Claim C1. For every request payload, the handler computes nothing from the input and
  returns the fixed values: \<^verbatim>\<open>displacement\<close> is the integer 8000, \<^verbatim>\<open>estimatedGM\<close> the
  float 1.5 and \<^verbatim>\<open>estimatedTrim\<close> the float 0.2.
\<close>

theorem calculate_stability_fixed_values:
  "is_success (fst (calculate_stability data s))
   \<and> result_field (fst (calculate_stability data s)) ''displacement'' = Some (JInt 8000)
   \<and> result_field (fst (calculate_stability data s)) ''estimatedGM'' = Some (JFloat 1.5)
   \<and> result_field (fst (calculate_stability data s)) ''estimatedTrim'' = Some (JFloat 0.2)"
  by (simp add: calculate_stability_outcome)

section \<open>Facts about the concrete inputs\<close>

lemma spec_example_input_valid: "spec_valid_input spec_example_input"
  by (simp add: spec_valid_input_def spec_example_input_def spec_positive_def
      spec_numeric_def spec_optional_beam_def spec_optional_cargo_def)

lemma equal_heights_input_valid: "spec_valid_input equal_heights_input"
  by (simp add: spec_valid_input_def equal_heights_input_def spec_positive_def
      spec_numeric_def spec_optional_beam_def spec_optional_cargo_def)

lemma loaded_input_valid: "spec_valid_input loaded_input"
  by (simp add: spec_valid_input_def loaded_input_def spec_positive_def
      spec_numeric_def spec_non_negative_def spec_optional_beam_def spec_optional_cargo_def)

lemma loaded_input_cargo_weight: "spec_cargo_weight loaded_input = Some 3000"
  by (simp add: spec_cargo_weight_def loaded_input_def)

lemma negative_displacement_input_invalid: "\<not> spec_valid_input negative_displacement_input"
  by (simp add: spec_valid_input_def negative_displacement_input_def spec_positive_def)

lemma non_numeric_input_invalid: "\<not> spec_valid_input non_numeric_input"
  by (simp add: spec_valid_input_def non_numeric_input_def spec_positive_def)

section \<open>Validation\<close>

text \<open>
  Claim C2, as stated: a payload without \<^verbatim>\<open>displacement_tonnes\<close> (or an equivalent)
  fails with a validation error and never yields a success carrying a default such as 8000.
  The handler does not look at the payload: the payload below has neither a displacement
  nor cargo weights, and the call succeeds with \<^verbatim>\<open>displacement\<close> 8000.
\<close>

theorem missing_displacement_counterexample:
  "no_displacement_input ''displacement_tonnes'' = None
   \<and> no_displacement_input ''cargo_distribution'' = None
   \<and> \<not> is_validation_failure (fst (calculate_stability no_displacement_input ()))
   \<and> is_success (fst (calculate_stability no_displacement_input ()))
   \<and> result_num (fst (calculate_stability no_displacement_input ())) ''displacement'' = Some 8000"
  by (simp add: no_displacement_input_def calculate_stability_is_success
      calculate_stability_not_failure result_num_displacement)

text \<open>
  Claim C2, amended: for every payload in which \<^verbatim>\<open>displacement_tonnes\<close> is absent, the
  call succeeds, no validation error is produced, and the \<^verbatim>\<open>displacement\<close> of the
  result is the constant 8000.
\<close>

theorem missing_displacement_succeeds:
  "data ''displacement_tonnes'' = None \<Longrightarrow>
     is_success (fst (calculate_stability data s))
     \<and> \<not> is_validation_failure (fst (calculate_stability data s))
     \<and> result_num (fst (calculate_stability data s)) ''displacement'' = Some 8000"
  by (simp add: calculate_stability_is_success calculate_stability_not_failure
      result_num_displacement)

theorem missing_displacement_succeeds_witness:
  "no_displacement_input ''displacement_tonnes'' = None
   \<and> is_success (fst (calculate_stability no_displacement_input ()))
   \<and> \<not> is_validation_failure (fst (calculate_stability no_displacement_input ()))
   \<and> result_num (fst (calculate_stability no_displacement_input ())) ''displacement'' = Some 8000"
proof -
  have absent: "no_displacement_input ''displacement_tonnes'' = None"
    by (simp add: no_displacement_input_def)
  from missing_displacement_succeeds [of no_displacement_input "()"] absent show ?thesis
    by blast
qed

text \<open>
  Claim C8, as stated: a request with a non-numeric required field or a violated invariant
  (a negative displacement) gets a validation failure, never a success. Both payloads below
  are dicts the handler can receive; both calls succeed.
\<close>

theorem invalid_input_counterexample:
  "\<not> spec_valid_input negative_displacement_input
   \<and> num_at negative_displacement_input ''displacement_tonnes'' = Some (- 5)
   \<and> is_success (fst (calculate_stability negative_displacement_input ()))
   \<and> \<not> is_validation_failure (fst (calculate_stability negative_displacement_input ()))
   \<and> \<not> spec_valid_input non_numeric_input
   \<and> non_numeric_input ''displacement_tonnes'' = Some (JStr ''heavy'')
   \<and> is_success (fst (calculate_stability non_numeric_input ()))
   \<and> \<not> is_validation_failure (fst (calculate_stability non_numeric_input ()))"
  by (simp add: negative_displacement_input_invalid non_numeric_input_invalid
      calculate_stability_is_success calculate_stability_not_failure)
     (simp add: negative_displacement_input_def non_numeric_input_def num_at_def)

text \<open>
  Claim C8, amended: for every dict payload that is not a valid input (a required field
  missing or not a number, or an invariant violated), the handler still returns a success,
  never a validation failure, and the result is the one a valid input gets.
\<close>

theorem invalid_input_succeeds:
  "\<not> spec_valid_input data \<Longrightarrow>
     is_success (fst (calculate_stability data s))
     \<and> \<not> is_validation_failure (fst (calculate_stability data s))
     \<and> fst (calculate_stability data s) = fst (calculate_stability spec_example_input s)"
  by (simp add: calculate_stability_is_success calculate_stability_not_failure
      calculate_stability_outcome)

theorem invalid_input_succeeds_witness:
  "\<not> spec_valid_input negative_displacement_input
   \<and> is_success (fst (calculate_stability negative_displacement_input ()))
   \<and> \<not> is_validation_failure (fst (calculate_stability negative_displacement_input ()))
   \<and> fst (calculate_stability negative_displacement_input ())
       = fst (calculate_stability spec_example_input ())"
proof -
  have invalid: "\<not> spec_valid_input negative_displacement_input"
    by (simp add: spec_valid_input_def negative_displacement_input_def spec_positive_def)
  from invalid_input_succeeds [of negative_displacement_input "()"] invalid show ?thesis
    by blast
qed

section \<open>The three fields of the result\<close>

text \<open>
  Claim C3, as stated: every valid input that omits \<^verbatim>\<open>cargo_distribution\<close> gets
  \<^verbatim>\<open>estimatedTrim\<close> 0.0. The specification's own example scenario is a valid input
  without a cargo distribution, and the handler answers it with a trim that is not 0.
\<close>

theorem omitted_cargo_trim_counterexample:
  "spec_valid_input spec_example_input
   \<and> spec_example_input ''cargo_distribution'' = None
   \<and> is_success (fst (calculate_stability spec_example_input ()))
   \<and> result_num (fst (calculate_stability spec_example_input ())) ''estimatedTrim'' \<noteq> Some 0"
  by (simp add: spec_example_input_valid calculate_stability_is_success
      result_num_estimatedTrim)
     (simp add: spec_example_input_def)

text \<open>
  Claim C3, amended: for every input, valid or not, that omits \<^verbatim>\<open>cargo_distribution\<close>,
  the call succeeds and the returned \<^verbatim>\<open>estimatedTrim\<close> is the constant 0.2.
\<close>

theorem omitted_cargo_trim:
  "data ''cargo_distribution'' = None \<Longrightarrow>
     is_success (fst (calculate_stability data s))
     \<and> result_num (fst (calculate_stability data s)) ''estimatedTrim'' = Some 0.2"
  by (simp add: calculate_stability_is_success result_num_estimatedTrim)

theorem omitted_cargo_trim_witness:
  "spec_example_input ''cargo_distribution'' = None
   \<and> is_success (fst (calculate_stability spec_example_input ()))
   \<and> result_num (fst (calculate_stability spec_example_input ())) ''estimatedTrim'' = Some 0.2"
proof -
  have omitted: "spec_example_input ''cargo_distribution'' = None"
    by (simp add: spec_example_input_def)
  from omitted_cargo_trim [of spec_example_input "()"] omitted show ?thesis
    by blast
qed

text \<open>
  Claim C4, as stated: a valid input whose two heights are equal and whose beam-derived
  \<open>BM\<close> is zero gets \<^verbatim>\<open>estimatedGM\<close> 0. The input below is valid, has both heights at
  6.0 and no beam, and the handler answers it with a GM that is not 0.
\<close>

theorem equal_heights_gm_counterexample:
  "spec_valid_input equal_heights_input
   \<and> num_at equal_heights_input ''center_of_buoyancy_height''
       = num_at equal_heights_input ''center_of_gravity_height''
   \<and> spec_BM 1 equal_heights_input = 0
   \<and> is_success (fst (calculate_stability equal_heights_input ()))
   \<and> result_num (fst (calculate_stability equal_heights_input ())) ''estimatedGM'' \<noteq> Some 0"
  by (simp add: equal_heights_input_valid calculate_stability_is_success
      result_num_estimatedGM)
     (simp add: equal_heights_input_def num_at_def spec_BM_def)

text \<open>
  Claim C4, amended: for every input in which \<^verbatim>\<open>center_of_buoyancy_height\<close> equals
  \<^verbatim>\<open>center_of_gravity_height\<close> and the beam-derived \<open>BM\<close> is zero (whatever the
  calibration constant), the returned \<^verbatim>\<open>estimatedGM\<close> is the constant 1.5.
\<close>

theorem equal_heights_gm:
  "num_at data ''center_of_buoyancy_height'' = num_at data ''center_of_gravity_height'' \<Longrightarrow>
   spec_BM k data = 0 \<Longrightarrow>
     result_num (fst (calculate_stability data s)) ''estimatedGM'' = Some 1.5"
  by (simp add: result_num_estimatedGM)

theorem equal_heights_gm_witness:
  "num_at equal_heights_input ''center_of_buoyancy_height''
     = num_at equal_heights_input ''center_of_gravity_height''
   \<and> spec_BM 1 equal_heights_input = 0
   \<and> result_num (fst (calculate_stability equal_heights_input ())) ''estimatedGM'' = Some 1.5"
proof -
  have heights: "num_at equal_heights_input ''center_of_buoyancy_height''
                   = num_at equal_heights_input ''center_of_gravity_height''"
    by (simp add: equal_heights_input_def num_at_def)
  have radius: "spec_BM 1 equal_heights_input = 0"
    by (simp add: equal_heights_input_def num_at_def spec_BM_def)
  from equal_heights_gm [of equal_heights_input 1 "()"] heights radius show ?thesis
    by blast
qed

text \<open>
  Claim C5, as stated: for every valid input the \<^verbatim>\<open>displacement\<close> of the result is the
  supplied \<^verbatim>\<open>displacement_tonnes\<close> or the sum of the supplied cargo weights. The input
  below is valid, supplies 5000 tonnes and cargo weighing 3000 tonnes, and the result
  carries neither.
\<close>

theorem displacement_from_input_counterexample:
  "spec_valid_input loaded_input
   \<and> num_at loaded_input ''displacement_tonnes'' = Some 5000
   \<and> spec_cargo_weight loaded_input = Some 3000
   \<and> result_num (fst (calculate_stability loaded_input ())) ''displacement''
       \<noteq> num_at loaded_input ''displacement_tonnes''
   \<and> result_num (fst (calculate_stability loaded_input ())) ''displacement''
       \<noteq> spec_cargo_weight loaded_input"
  by (simp add: loaded_input_valid loaded_input_cargo_weight result_num_displacement)
     (simp add: loaded_input_def num_at_def)

text \<open>
  Claim C5, amended: for every input the \<^verbatim>\<open>displacement\<close> of the result is the constant
  8000; it equals the supplied \<^verbatim>\<open>displacement_tonnes\<close> exactly when that is 8000, and
  the sum of the supplied cargo weights exactly when that sum is 8000.
\<close>

theorem displacement_constant:
  "result_num (fst (calculate_stability data s)) ''displacement'' = Some 8000
   \<and> ((result_num (fst (calculate_stability data s)) ''displacement''
          = num_at data ''displacement_tonnes'')
        = (num_at data ''displacement_tonnes'' = Some 8000))
   \<and> ((result_num (fst (calculate_stability data s)) ''displacement''
          = spec_cargo_weight data)
        = (spec_cargo_weight data = Some 8000))"
  by (auto simp add: result_num_displacement)

text \<open>
  Claim C7, as stated: on every success the \<^verbatim>\<open>displacement\<close> of the result is
  non-negative, because inputs with a negative displacement are rejected at validation.
  Nothing is rejected: the payload below supplies a displacement of -5 tonnes and the call
  succeeds.
\<close>

theorem negative_displacement_counterexample:
  "num_at negative_displacement_input ''displacement_tonnes'' = Some (- 5)
   \<and> is_success (fst (calculate_stability negative_displacement_input ()))
   \<and> \<not> is_validation_failure (fst (calculate_stability negative_displacement_input ()))"
  by (simp add: calculate_stability_is_success calculate_stability_not_failure)
     (simp add: negative_displacement_input_def num_at_def)

text \<open>
  Claim C7, amended: the call succeeds on every dict payload, one with a negative
  \<^verbatim>\<open>displacement_tonnes\<close> included, since nothing is rejected; and for every input on
  which the call succeeds, the \<^verbatim>\<open>displacement\<close> of the returned object is a
  non-negative number: the constant 8000.
\<close>

theorem displacement_non_negative:
  "is_success (fst (calculate_stability data s))
   \<and> \<not> is_validation_failure (fst (calculate_stability data s))
   \<and> result_num (fst (calculate_stability data s)) ''displacement'' = Some 8000
   \<and> (fst (calculate_stability data s) = Inr r \<longrightarrow>
         num_at r ''displacement'' = Some 8000
         \<and> (\<exists>x. num_at r ''displacement'' = Some x \<and> 0 \<le> x))"
  by (auto simp add: calculate_stability_outcome num_at_def)

theorem displacement_non_negative_witness:
  "num_at negative_displacement_input ''displacement_tonnes'' = Some (- 5)
   \<and> fst (calculate_stability negative_displacement_input ())
       = Inr (Map.empty(''displacement'' \<mapsto> JInt 8000,
                        ''estimatedGM'' \<mapsto> JFloat 1.5,
                        ''estimatedTrim'' \<mapsto> JFloat 0.2))
   \<and> is_success (fst (calculate_stability negative_displacement_input ()))
   \<and> \<not> is_validation_failure (fst (calculate_stability negative_displacement_input ()))
   \<and> result_num (fst (calculate_stability negative_displacement_input ())) ''displacement''
       = Some 8000
   \<and> num_at (Map.empty(''displacement'' \<mapsto> JInt 8000,
                        ''estimatedGM'' \<mapsto> JFloat 1.5,
                        ''estimatedTrim'' \<mapsto> JFloat 0.2)) ''displacement'' = Some 8000
   \<and> (\<exists>x. num_at (Map.empty(''displacement'' \<mapsto> JInt 8000,
                            ''estimatedGM'' \<mapsto> JFloat 1.5,
                            ''estimatedTrim'' \<mapsto> JFloat 0.2)) ''displacement'' = Some x
           \<and> 0 \<le> x)"
proof -
  have negative: "num_at negative_displacement_input ''displacement_tonnes'' = Some (- 5)"
    by (simp add: negative_displacement_input_def num_at_def)
  have returned: "fst (calculate_stability negative_displacement_input ())
     = Inr (Map.empty(''displacement'' \<mapsto> JInt 8000,
                      ''estimatedGM'' \<mapsto> JFloat 1.5,
                      ''estimatedTrim'' \<mapsto> JFloat 0.2))"
    by (simp add: calculate_stability_def)
  from displacement_non_negative
         [of negative_displacement_input "()"
             "Map.empty(''displacement'' \<mapsto> JInt 8000,
                        ''estimatedGM'' \<mapsto> JFloat 1.5,
                        ''estimatedTrim'' \<mapsto> JFloat 0.2)"]
       negative returned
  show ?thesis
    by blast
qed

section \<open>Purity, noninterference, totality\<close>

text \<open>
  Claim C6. The handler is a pure, deterministic function of its input: called twice in a
  row with the same payload it returns the same outcome both times and leaves the state
  around it as it was, and the outcome is the same from any other state.
\<close>

theorem calculate_stability_pure:
  "fst (calculate_stability data (snd (calculate_stability data s)))
     = fst (calculate_stability data s)
   \<and> snd (calculate_stability data (snd (calculate_stability data s))) = s
   \<and> snd (calculate_stability data s) = s
   \<and> fst (calculate_stability data s') = fst (calculate_stability data s)"
  by (simp add: calculate_stability_def)

text \<open>
  Claim C9. The response does not depend on the request: any two payloads get the same
  outcome, so no field of the input influences any field of the output.
\<close>

theorem calculate_stability_noninterference:
  "fst (calculate_stability data1 s1) = fst (calculate_stability data2 s2)"
  by (simp add: calculate_stability_def)

text \<open>
  Claim C10. For every dict payload the handler returns normally, raising nothing, and the
  returned object has exactly the keys \<^verbatim>\<open>displacement\<close>, \<^verbatim>\<open>estimatedGM\<close> and
  \<^verbatim>\<open>estimatedTrim\<close>.
\<close>

theorem calculate_stability_total:
  "\<exists>r. fst (calculate_stability data s) = Inr r
       \<and> dom r = {''displacement'', ''estimatedGM'', ''estimatedTrim''}"
  by (auto simp add: calculate_stability_def)

end
